theory Spec2Isabelle
  imports Main "HOL-Library.Multiset"
begin

section \<open>The support-desk backend: two variants of server.js\<close>

text \<open>
  The source file holds two variants of the same Express server. Variant 1 (the first
  document, lines 2 to 299) validates its configuration, hashes passwords and checks
  request fields. Variant 2 (the second document, lines 300 to 454) stores passwords as
  given, falls back to a default signing secret and leaves validation to the schemas.
  A handler that differs between the variants carries the suffix 1 or 2 here; the
  middleware \<open>authenticateToken\<close> exists in variant 1 only, and the listing of reviews
  is the same in both.

  A field of a request body that a handler hands to a Mongoose document is modelled at
  the type the schema gives it: a String field is a \<open>string option\<close> (\<open>None\<close> when the
  key is absent, JavaScript's undefined), the rating is a number. The two fields of a
  login body reach a query filter and \<open>bcrypt.compare\<close> as they were parsed, so they
  are values of JSON (\<open>jsvalue\<close>). Strings are byte strings: a character outside ASCII
  is written as its UTF-8 bytes.

  The document store is an in-memory collection per model that always answers. The
  catch branch of a handler is therefore reached only by the exceptions the model has:
  a rejected bcrypt call, a schema validation failure, a filter value that does not
  cast, a duplicate key, the TypeError of a method call on undefined and a failed token
  verification.
\<close>

subsection \<open>JavaScript values and JSON responses\<close>

text \<open>The operator \<open>!\<close> on a value that is a string or undefined.\<close>

definition js_not :: "string option \<Rightarrow> bool" where
  "js_not v = (case v of None \<Rightarrow> True | Some s \<Rightarrow> s = [])"

text \<open>The operator \<open>!\<close> on a value that is a number or undefined.\<close>

definition js_not_num :: "int option \<Rightarrow> bool" where
  "js_not_num v = (case v of None \<Rightarrow> True | Some n \<Rightarrow> n = 0)"

text \<open>
  A value of a parsed JSON body, as \<open>express.json()\<close> leaves it in \<open>req.body\<close>; numbers
  are modelled by the integers.
\<close>

datatype jsvalue =
    JSNull
  | JSBool bool
  | JSNumber int
  | JSString string
  | JSArray "jsvalue list"
  | JSObject "(string \<times> jsvalue) list"

text \<open>
  The operator \<open>!\<close> on a value of a body or undefined: null, false, 0 and the empty
  string are falsy, every array and object is truthy.
\<close>

definition js_falsy :: "jsvalue option \<Rightarrow> bool" where
  "js_falsy v =
     (case v of
        None \<Rightarrow> True
      | Some JSNull \<Rightarrow> True
      | Some (JSBool b) \<Rightarrow> \<not> b
      | Some (JSNumber n) \<Rightarrow> n = 0
      | Some (JSString s) \<Rightarrow> s = []
      | Some (JSArray xs) \<Rightarrow> False
      | Some (JSObject kvs) \<Rightarrow> False)"

text \<open>Exceptions that reach a catch block, by the name of the error class.\<close>

datatype exn =
    ValidationError
  | MongoDuplicateKey
  | BcryptError
  | JsonWebTokenError
  | TokenExpiredError

text \<open>
  A JSON response body. \<open>JOid\<close> is an ObjectId and \<open>JDate\<close> a date as the driver
  serialises them; \<open>JErrorMessage e\<close> is the text of \<open>error.message\<close> for the
  exception \<open>e\<close>.
\<close>

datatype json =
    JNull
  | JBool bool
  | JNum int
  | JStr string
  | JOid nat
  | JDate nat
  | JErrorMessage exn
  | JArr "json list"
  | JObj "(string \<times> json) list"

type_synonym response = "nat \<times> json"

text \<open>A key whose value is undefined is left out of the serialised object.\<close>

definition field :: "string \<Rightarrow> string option \<Rightarrow> (string \<times> json) list" where
  "field k v = (case v of None \<Rightarrow> [] | Some s \<Rightarrow> [(k, JStr s)])"

text \<open>\<open>res.status(code).json({ success, message })\<close>.\<close>

definition reply :: "nat \<Rightarrow> bool \<Rightarrow> string \<Rightarrow> response" where
  "reply code ok msg = (code, JObj [(''success'', JBool ok), (''message'', JStr msg)])"

subsection \<open>The message literals\<close>

definition a_acute :: string where "a_acute = [CHR 0xC3, CHR 0xA1]"
definition e_acute :: string where "e_acute = [CHR 0xC3, CHR 0xA9]"
definition n_tilde :: string where "n_tilde = [CHR 0xC3, CHR 0xB1]"

definition msg_token_requerido :: string where
  "msg_token_requerido = ''Token requerido''"
definition msg_token_invalido :: string where
  "msg_token_invalido = ''Token inv'' @ a_acute @ ''lido''"
definition msg_campos_registro :: string where
  "msg_campos_registro = ''Nombre, email y contrase'' @ n_tilde @ ''a son requeridos''"
definition msg_usuario_existe :: string where
  "msg_usuario_existe = ''El usuario ya existe''"
definition msg_usuario_registrado :: string where
  "msg_usuario_registrado = ''Usuario registrado con '' @ e_acute @ ''xito''"
definition msg_error_interno :: string where
  "msg_error_interno = ''Error interno del servidor''"
definition msg_campos_login :: string where
  "msg_campos_login = ''Email y contrase'' @ n_tilde @ ''a son requeridos''"
definition msg_credenciales :: string where
  "msg_credenciales = ''Credenciales inv'' @ a_acute @ ''lidas''"
definition msg_login_exitoso :: string where
  "msg_login_exitoso = ''Login exitoso''"
definition msg_usuario_no_encontrado :: string where
  "msg_usuario_no_encontrado = ''Usuario no encontrado''"
definition msg_todos_los_campos :: string where
  "msg_todos_los_campos = ''Todos los campos son requeridos''"
definition msg_urgencia_no_valida :: string where
  "msg_urgencia_no_valida = ''Nivel de urgencia no v'' @ a_acute @ ''lido''"
definition msg_problema_guardado :: string where
  "msg_problema_guardado = ''Problema guardado exitosamente''"
definition msg_problema_no_guardado :: string where
  "msg_problema_no_guardado = ''No se pudo guardar el problema''"
definition msg_faltan_campos :: string where
  "msg_faltan_campos = ''Faltan campos requeridos''"
definition msg_resena_creada :: string where
  "msg_resena_creada = ''Rese'' @ n_tilde @ ''a creada con '' @ e_acute @ ''xito''"
definition msg_error_crear_resena :: string where
  "msg_error_crear_resena = ''Error al crear rese'' @ n_tilde @ ''a''"

subsection \<open>The schemas and the document store\<close>

text \<open>
  \<open>UserSchema\<close>: name, email and password are Strings without a required flag, so a
  stored document may lack any of them. \<open>user_id\<close> is the \<open>_id\<close> Mongoose assigns.
\<close>

record user =
  user_id :: nat
  user_name :: "string option"
  user_email :: "string option"
  user_password :: "string option"

text \<open>
  \<open>ReviewSchema\<close>; \<open>review_id\<close> is the \<open>_id\<close> Mongoose assigns and \<open>review_date\<close> the
  field \<open>date\<close>. Dates are points on the server's clock.
\<close>

record review =
  review_id :: nat
  review_userId :: nat
  review_userName :: string
  review_problemDate :: nat
  review_problemDescription :: string
  review_toolsUsed :: string
  review_rating :: int
  review_comment :: string
  review_date :: nat

text \<open>\<open>ProblemSchema\<close>.\<close>

record problem =
  problem_title :: string
  problem_description :: string
  problem_category :: string
  problem_urgency :: string
  problem_createdAt :: nat

record db =
  users :: "user list"
  reviews :: "review list"
  problems :: "problem list"

text \<open>
  \<open>new User(...)\<close> and \<open>new Review(...)\<close> draw a fresh ObjectId: here the successor
  of the largest one among the ids of the collection.
\<close>

definition new_ObjectId :: "nat list \<Rightarrow> nat" where
  "new_ObjectId ids = Suc (fold max ids 0)"

text \<open>
  \<open>User.findOne({ email })\<close>: the first document whose email equals the value asked
  for. An undefined value is sent as null, which matches a document without the field.
\<close>

definition findOne_email :: "db \<Rightarrow> string option \<Rightarrow> user option" where
  "findOne_email d email = find (\<lambda>u. user_email u = email) (users d)"

text \<open>
  A value of a body used in a query filter on a String path. An undefined value matches
  a document without the field and a string the documents that hold it. What Mongoose
  makes of any other value (a number, an array, an object of query operators) is the
  parameter \<open>cast\<close>: a condition on the stored field, or a cast error.
\<close>

definition filter_String ::
  "(jsvalue \<Rightarrow> exn + (string option \<Rightarrow> bool)) \<Rightarrow> jsvalue option \<Rightarrow>
   exn + (string option \<Rightarrow> bool)" where
  "filter_String cast v =
     (case v of
        None \<Rightarrow> Inr (\<lambda>x. x = None)
      | Some (JSString s) \<Rightarrow> Inr (\<lambda>x. x = Some s)
      | Some j \<Rightarrow> cast j)"

text \<open>\<open>User.findById(id)\<close>.\<close>

definition findById :: "db \<Rightarrow> nat \<Rightarrow> user option" where
  "findById d i = find (\<lambda>u. user_id u = i) (users d)"

text \<open>
  \<open>user.save()\<close> in variant 1, whose schema declares \<open>email: { unique: true }\<close>: the
  unique index rejects a second document with the same email.
\<close>

definition save_user1 :: "db \<Rightarrow> user \<Rightarrow> exn + db" where
  "save_user1 d u =
     (if find (\<lambda>v. user_email v = user_email u) (users d) = None
      then Inr (d\<lparr>users := users d @ [u]\<rparr>)
      else Inl MongoDuplicateKey)"

text \<open>\<open>user.save()\<close> in variant 2, whose schema has no index on email.\<close>

definition save_user2 :: "db \<Rightarrow> user \<Rightarrow> db" where
  "save_user2 d u = d\<lparr>users := users d @ [u]\<rparr>"

subsection \<open>Registration\<close>

text \<open>
  \<open>bcrypt.hash(password, 10)\<close> draws a random salt; the salt is an argument here, and
  the hash function of the bcryptjs library is the parameter \<open>bcrypt_hash\<close>, applied to
  the salt, the cost and the password.
\<close>

definition register1 ::
  "(string \<Rightarrow> nat \<Rightarrow> string \<Rightarrow> string) \<Rightarrow> string \<Rightarrow> db \<Rightarrow>
   string option \<Rightarrow> string option \<Rightarrow> string option \<Rightarrow> db \<times> response" where
  "register1 bcrypt_hash salt d name email password =
     (if js_not name \<or> js_not email \<or> js_not password
      then (d, reply 400 False msg_campos_registro)
      else case findOne_email d email of
        Some existingUser \<Rightarrow> (d, reply 400 False msg_usuario_existe)
      | None \<Rightarrow>
          (let hashedPassword = bcrypt_hash salt 10 (the password);
               u = \<lparr>user_id = new_ObjectId (map user_id (users d)), user_name = name,
                    user_email = email, user_password = Some hashedPassword\<rparr>
           in case save_user1 d u of
                Inl error \<Rightarrow> (d, reply 500 False msg_error_interno)
              | Inr d' \<Rightarrow> (d', reply 201 True msg_usuario_registrado)))"

text \<open>Variant 2 has no field check and stores the password it was given.\<close>

definition register2 ::
  "db \<Rightarrow> string option \<Rightarrow> string option \<Rightarrow> string option \<Rightarrow> db \<times> response" where
  "register2 d name email password =
     (case findOne_email d email of
        Some existingUser \<Rightarrow> (d, reply 400 False msg_usuario_existe)
      | None \<Rightarrow>
          (let u = \<lparr>user_id = new_ObjectId (map user_id (users d)), user_name = name,
                    user_email = email, user_password = password\<rparr>
           in (save_user2 d u, reply 200 True msg_usuario_registrado)))"

subsection \<open>Session tokens\<close>

text \<open>
  The payload \<open>{ userId, email, iat, exp }\<close> of a token, times in seconds, and a parsed
  token: the payload with its signature.
\<close>

record jwt_payload =
  jwt_userId :: nat
  jwt_email :: "string option"
  jwt_iat :: nat
  jwt_exp :: nat

record jwt =
  jwt_body :: jwt_payload
  jwt_sig :: string

text \<open>
  What the jsonwebtoken library computes and this model leaves open: the keyed
  signature \<open>hmac\<close> over a payload, and the compact serialisation of a token as a
  string with its parser.
\<close>

record jwt_lib =
  hmac :: "string \<Rightarrow> jwt_payload \<Rightarrow> string"
  jwt_encode :: "jwt \<Rightarrow> string"
  jwt_decode :: "string \<Rightarrow> jwt option"

text \<open>
  Modelled from the spec: \<open>jwt.sign\<close> of the jsonwebtoken library, which is not part
  of the repository. The spec: issue "produces a signed token whose payload is
  {accountId, identity, iat, exp} with exp = iat + 24h, signed with a server-held
  secret"; the lifetime is the argument \<open>expiresIn\<close>, in seconds.
\<close>

definition jwt_sign ::
  "jwt_lib \<Rightarrow> nat \<Rightarrow> string option \<Rightarrow> string \<Rightarrow> nat \<Rightarrow> nat \<Rightarrow> string" where
  "jwt_sign L userId email secret expiresIn now =
     (let p = \<lparr>jwt_userId = userId, jwt_email = email, jwt_iat = now,
                jwt_exp = now + expiresIn\<rparr>
      in jwt_encode L \<lparr>jwt_body = p, jwt_sig = hmac L secret p\<rparr>)"

text \<open>
  Modelled from the spec: \<open>jwt.verify\<close> of the jsonwebtoken library, which is not part
  of the repository. The spec: verify "parses and checks signature first (reject on
  mismatch as TokenInvalid), then checks expiry (reject as TokenExpired), returns
  decoded payload otherwise". The library's names for the two errors are
  JsonWebTokenError and TokenExpiredError.
\<close>

definition jwt_verify :: "jwt_lib \<Rightarrow> string \<Rightarrow> string \<Rightarrow> nat \<Rightarrow> exn + jwt_payload" where
  "jwt_verify L token secret now =
     (case jwt_decode L token of
        None \<Rightarrow> Inl JsonWebTokenError
      | Some t \<Rightarrow>
          if jwt_sig t \<noteq> hmac L secret (jwt_body t) then Inl JsonWebTokenError
          else if jwt_exp (jwt_body t) \<le> now then Inl TokenExpiredError
          else Inr (jwt_body t))"

text \<open>
  What the compact serialisation of the library gives for a token \<open>t\<close>: a string that is
  not empty, holds no space and parses back to \<open>t\<close>.
\<close>

definition compact_serialisation :: "jwt_lib \<Rightarrow> jwt \<Rightarrow> bool" where
  "compact_serialisation L t =
     (jwt_decode L (jwt_encode L t) = Some t \<and> jwt_encode L t \<noteq> [] \<and>
      CHR '' '' \<notin> set (jwt_encode L t))"

text \<open>\<open>String.prototype.split\<close> with a separator of one character.\<close>

fun js_split :: "char \<Rightarrow> string \<Rightarrow> string list" where
  "js_split sep [] = [[]]"
| "js_split sep (c # cs) =
     (if c = sep then [] # js_split sep cs
      else case js_split sep cs of
             [] \<Rightarrow> [[c]]
           | w # ws \<Rightarrow> (c # w) # ws)"

text \<open>An array read at an index: undefined past the end.\<close>

definition js_index :: "'a list \<Rightarrow> nat \<Rightarrow> 'a option" where
  "js_index xs i = (if i < length xs then Some (xs ! i) else None)"

text \<open>
  Variant 1: \<open>authHeader && authHeader.split(' ')[1]\<close>. The operator \<open>&&\<close> yields its
  left operand when that is falsy: undefined, or the empty string.
\<close>

definition header_token1 :: "string option \<Rightarrow> string option" where
  "header_token1 authHeader =
     (if js_not authHeader then authHeader
      else js_index (js_split CHR '' '' (the authHeader)) 1)"

text \<open>Variant 2: \<open>req.headers.authorization?.split(" ")[1]\<close>.\<close>

definition header_token2 :: "string option \<Rightarrow> string option" where
  "header_token2 authorization =
     (case authorization of
        None \<Rightarrow> None
      | Some h \<Rightarrow> js_index (js_split CHR '' '' h) 1)"

text \<open>
  The middleware of variant 1: a response, or \<open>req.user\<close> for the next handler.
\<close>

definition authenticateToken ::
  "jwt_lib \<Rightarrow> string \<Rightarrow> nat \<Rightarrow> string option \<Rightarrow> response + jwt_payload" where
  "authenticateToken L JWT_SECRET now authHeader =
     (let token = header_token1 authHeader
      in if js_not token then Inl (reply 401 False msg_token_requerido)
         else case jwt_verify L (the token) JWT_SECRET now of
                Inl err \<Rightarrow> Inl (reply 403 False msg_token_invalido)
              | Inr user \<Rightarrow> Inr user)"

text \<open>
  \<open>.select("-password")\<close> and the serialisation of the document: the password is left
  out, \<open>__v\<close> is the version key of a stored document.
\<close>

definition user_without_password :: "user \<Rightarrow> json" where
  "user_without_password u =
     JObj ([(''_id'', JOid (user_id u))] @ field ''name'' (user_name u)
           @ field ''email'' (user_email u) @ [(''__v'', JNum 0)])"

definition verify1 ::
  "jwt_lib \<Rightarrow> string \<Rightarrow> nat \<Rightarrow> db \<Rightarrow> string option \<Rightarrow> response" where
  "verify1 L JWT_SECRET now d authHeader =
     (case authenticateToken L JWT_SECRET now authHeader of
        Inl r \<Rightarrow> r
      | Inr req_user \<Rightarrow>
          (case findById d (jwt_userId req_user) of
             None \<Rightarrow> reply 404 False msg_usuario_no_encontrado
           | Some u \<Rightarrow>
               (200, JObj [(''success'', JBool True), (''user'', user_without_password u)])))"

text \<open>
  Variant 2 verifies inside the handler; an exception of \<open>jwt.verify\<close> lands in the
  catch block.
\<close>

definition verify2 ::
  "jwt_lib \<Rightarrow> string \<Rightarrow> nat \<Rightarrow> db \<Rightarrow> string option \<Rightarrow> response" where
  "verify2 L JWT_SECRET now d authorization =
     (let token = header_token2 authorization
      in if js_not token then reply 401 False msg_token_requerido
         else case jwt_verify L (the token) JWT_SECRET now of
                Inl error \<Rightarrow> reply 401 False msg_token_invalido
              | Inr decoded \<Rightarrow>
                  (case findById d (jwt_userId decoded) of
                     None \<Rightarrow> reply 404 False msg_usuario_no_encontrado
                   | Some u \<Rightarrow>
                       (200, JObj [(''success'', JBool True),
                                   (''user'', user_without_password u)])))"

subsection \<open>Login\<close>

text \<open>
  \<open>jwt.sign({ userId: user._id, email: user.email }, JWT_SECRET, { expiresIn: "24h" })\<close>,
  the same call in both variants; 24 hours are 86400 seconds.
\<close>

definition login_token :: "jwt_lib \<Rightarrow> string \<Rightarrow> nat \<Rightarrow> user \<Rightarrow> string" where
  "login_token L JWT_SECRET now u =
     jwt_sign L (user_id u) (user_email u) JWT_SECRET 86400 now"

text \<open>The body of a successful login, the same in both variants.\<close>

definition login_ok :: "string \<Rightarrow> user \<Rightarrow> response" where
  "login_ok token u =
     (200, JObj [(''success'', JBool True), (''message'', JStr msg_login_exitoso),
                 (''token'', JStr token),
                 (''user'', JObj ([(''id'', JOid (user_id u))] @ field ''name'' (user_name u)
                                  @ field ''email'' (user_email u)))])"

text \<open>
  \<open>bcrypt.compare(password, user.password)\<close> of the bcryptjs library. The library
  rejects ("Illegal arguments") when the password is not a string. On a string it is
  the parameter \<open>bcrypt_compare\<close>: it answers whether the password matches the stored
  hash, or rejects (a stored value that is undefined or not a bcrypt hash).
\<close>

definition bcrypt_compare_js ::
  "(string \<Rightarrow> string option \<Rightarrow> exn + bool) \<Rightarrow> jsvalue option \<Rightarrow> string option \<Rightarrow>
   exn + bool" where
  "bcrypt_compare_js bcrypt_compare password hash =
     (case password of
        Some (JSString pw) \<Rightarrow> bcrypt_compare pw hash
      | _ \<Rightarrow> Inl BcryptError)"

text \<open>
  Variant 1: the check that both fields are truthy, \<open>User.findOne({ email })\<close>, then
  \<open>bcrypt.compare\<close>. Every exception lands in the catch block.
\<close>

definition login1 ::
  "(jsvalue \<Rightarrow> exn + (string option \<Rightarrow> bool)) \<Rightarrow>
   (string \<Rightarrow> string option \<Rightarrow> exn + bool) \<Rightarrow> jwt_lib \<Rightarrow> string \<Rightarrow> nat \<Rightarrow> db \<Rightarrow>
   jsvalue option \<Rightarrow> jsvalue option \<Rightarrow> response" where
  "login1 cast bcrypt_compare L JWT_SECRET now d email password =
     (if js_falsy email \<or> js_falsy password
      then reply 400 False msg_campos_login
      else case filter_String cast email of
        Inl error \<Rightarrow> reply 500 False msg_error_interno
      | Inr email_is \<Rightarrow>
          (case find (\<lambda>u. email_is (user_email u)) (users d) of
             None \<Rightarrow> reply 401 False msg_credenciales
           | Some u \<Rightarrow>
               (case bcrypt_compare_js bcrypt_compare password (user_password u) of
                  Inl error \<Rightarrow> reply 500 False msg_error_interno
                | Inr isPasswordValid \<Rightarrow>
                    if \<not> isPasswordValid then reply 401 False msg_credenciales
                    else login_ok (login_token L JWT_SECRET now u) u)))"

text \<open>
  Variant 2 looks the user up by email and password together,
  \<open>User.findOne({ email, password })\<close>, and checks nothing before.
\<close>

definition login2 ::
  "(jsvalue \<Rightarrow> exn + (string option \<Rightarrow> bool)) \<Rightarrow> jwt_lib \<Rightarrow> string \<Rightarrow> nat \<Rightarrow> db \<Rightarrow>
   jsvalue option \<Rightarrow> jsvalue option \<Rightarrow> response" where
  "login2 cast L JWT_SECRET now d email password =
     (case filter_String cast email of
        Inl error \<Rightarrow> reply 500 False msg_error_interno
      | Inr email_is \<Rightarrow>
          (case filter_String cast password of
             Inl error \<Rightarrow> reply 500 False msg_error_interno
           | Inr password_is \<Rightarrow>
               (case find (\<lambda>u. email_is (user_email u) \<and> password_is (user_password u))
                       (users d) of
                  None \<Rightarrow> reply 401 False msg_credenciales
                | Some u \<Rightarrow> login_ok (login_token L JWT_SECRET now u) u)))"

subsection \<open>Problem reports\<close>

text \<open>
  \<open>toUpperCase\<close> and \<open>toLowerCase\<close> on the letters of ASCII; every other byte stays
  as it is.
\<close>

definition toUpperCase :: "char \<Rightarrow> char" where
  "toUpperCase c =
     (let n = (of_char c :: nat) in if 97 \<le> n \<and> n \<le> 122 then char_of (n - 32) else c)"

definition toLowerCase :: "char \<Rightarrow> char" where
  "toLowerCase c =
     (let n = (of_char c :: nat) in if 65 \<le> n \<and> n \<le> 90 then char_of (n + 32) else c)"

text \<open>
  \<open>urgency.charAt(0).toUpperCase() + urgency.slice(1).toLowerCase()\<close>: \<open>charAt(0)\<close> is
  the first character or the empty string, \<open>slice(1)\<close> the rest.
\<close>

definition normalizedUrgency :: "string \<Rightarrow> string" where
  "normalizedUrgency urgency = map toUpperCase (take 1 urgency) @ map toLowerCase (drop 1 urgency)"

definition validUrgencies :: "string list" where
  "validUrgencies = [''Baja'', ''Media'', ''Alta'']"

text \<open>
  \<open>problem.save()\<close>: the validation of \<open>ProblemSchema\<close> (four required Strings, none
  of them empty, and the enum of urgency), then the insert with \<open>createdAt\<close> set to
  the clock.
\<close>

definition save_problem ::
  "nat \<Rightarrow> db \<Rightarrow> string option \<Rightarrow> string option \<Rightarrow> string option \<Rightarrow> string option \<Rightarrow> exn + db" where
  "save_problem now d title description category urgency =
     (if js_not title \<or> js_not description \<or> js_not category \<or> js_not urgency
      then Inl ValidationError
      else if the urgency \<notin> set [''Baja'', ''Media'', ''Alta''] then Inl ValidationError
      else Inr (d\<lparr>problems := problems d @
                  [\<lparr>problem_title = the title, problem_description = the description,
                    problem_category = the category, problem_urgency = the urgency,
                    problem_createdAt = now\<rparr>]\<rparr>))"

definition createProblem1 ::
  "nat \<Rightarrow> db \<Rightarrow> string option \<Rightarrow> string option \<Rightarrow> string option \<Rightarrow> string option \<Rightarrow>
   db \<times> response" where
  "createProblem1 now d title description category urgency =
     (if js_not title \<or> js_not description \<or> js_not category \<or> js_not urgency
      then (d, reply 400 False msg_todos_los_campos)
      else if normalizedUrgency (the urgency) \<notin> set validUrgencies
      then (d, reply 400 False msg_urgencia_no_valida)
      else case save_problem now d title description category
                  (Some (normalizedUrgency (the urgency))) of
             Inl error \<Rightarrow> (d, reply 500 False msg_problema_no_guardado)
           | Inr d' \<Rightarrow> (d', reply 201 True msg_problema_guardado))"

text \<open>
  Variant 2 checks nothing itself: \<open>urgency.charAt\<close> on undefined throws a TypeError,
  and every other rejection is the schema's, inside \<open>save\<close>; both land in the catch
  block.
\<close>

definition createProblem2 ::
  "nat \<Rightarrow> db \<Rightarrow> string option \<Rightarrow> string option \<Rightarrow> string option \<Rightarrow> string option \<Rightarrow>
   db \<times> response" where
  "createProblem2 now d title description category urgency =
     (case urgency of
        None \<Rightarrow> (d, reply 500 False msg_problema_no_guardado)
      | Some u \<Rightarrow>
          (case save_problem now d title description category (Some (normalizedUrgency u)) of
             Inl error \<Rightarrow> (d, reply 500 False msg_problema_no_guardado)
           | Inr d' \<Rightarrow> (d', reply 201 True msg_problema_guardado)))"

subsection \<open>Reviews\<close>

text \<open>
  The casts of Mongoose that this model leaves open: a string to an ObjectId and a
  string to a Date, each failing on a string that is not one.
\<close>

record casts =
  castObjectId :: "string \<Rightarrow> nat option"
  castDate :: "string \<Rightarrow> nat option"

text \<open>
  \<open>review.save()\<close>: the validation of \<open>ReviewSchema\<close>, then the insert. Every field
  but \<open>date\<close> is required, a required String is not empty, the ObjectId and the dates
  must cast, the rating lies between 1 and 5, and \<open>date\<close> defaults to the clock.
\<close>

definition save_review ::
  "casts \<Rightarrow> nat \<Rightarrow> db \<Rightarrow> string option \<Rightarrow> string option \<Rightarrow> int option \<Rightarrow> string option \<Rightarrow>
   string option \<Rightarrow> string option \<Rightarrow> string option \<Rightarrow> string option \<Rightarrow> exn + db \<times> review" where
  "save_review C now d userId userName rating comment problemDate problemDescription
     toolsUsed date =
     (case (userId, problemDate, rating) of
        (Some uid, Some pd, Some r) \<Rightarrow>
          (case (castObjectId C uid, castDate C pd) of
             (Some uid', Some pd') \<Rightarrow>
               if js_not userName \<or> js_not comment \<or> js_not problemDescription
                  \<or> js_not toolsUsed
               then Inl ValidationError
               else if r < 1 \<or> 5 < r then Inl ValidationError
               else (case (case date of None \<Rightarrow> Some now | Some dt \<Rightarrow> castDate C dt) of
                       None \<Rightarrow> Inl ValidationError
                     | Some date' \<Rightarrow>
                         (let rv = \<lparr>review_id = new_ObjectId (map review_id (reviews d)),
                                    review_userId = uid', review_userName = the userName,
                                    review_problemDate = pd',
                                    review_problemDescription = the problemDescription,
                                    review_toolsUsed = the toolsUsed, review_rating = r,
                                    review_comment = the comment, review_date = date'\<rparr>
                          in Inr (d\<lparr>reviews := reviews d @ [rv]\<rparr>, rv)))
           | _ \<Rightarrow> Inl ValidationError)
      | _ \<Rightarrow> Inl ValidationError)"

text \<open>A stored review as JSON.\<close>

definition review_json :: "review \<Rightarrow> json" where
  "review_json r =
     JObj [(''userId'', JOid (review_userId r)), (''userName'', JStr (review_userName r)),
           (''problemDate'', JDate (review_problemDate r)),
           (''problemDescription'', JStr (review_problemDescription r)),
           (''toolsUsed'', JStr (review_toolsUsed r)), (''rating'', JNum (review_rating r)),
           (''comment'', JStr (review_comment r)), (''_id'', JOid (review_id r)),
           (''date'', JDate (review_date r)), (''__v'', JNum 0)]"

text \<open>
  Variant 1 checks that the seven fields are present with \<open>!\<close>, and builds the review
  from them alone: the date is always the clock's.
\<close>

definition createReview1 ::
  "casts \<Rightarrow> nat \<Rightarrow> db \<Rightarrow> string option \<Rightarrow> string option \<Rightarrow> int option \<Rightarrow> string option \<Rightarrow>
   string option \<Rightarrow> string option \<Rightarrow> string option \<Rightarrow> db \<times> response" where
  "createReview1 C now d userId userName rating comment problemDate problemDescription
     toolsUsed =
     (if js_not userId \<or> js_not userName \<or> js_not_num rating \<or> js_not comment
         \<or> js_not problemDate \<or> js_not problemDescription \<or> js_not toolsUsed
      then (d, reply 400 False msg_faltan_campos)
      else case save_review C now d userId userName rating comment problemDate
                  problemDescription toolsUsed None of
             Inl error \<Rightarrow>
               (d, (500, JObj [(''success'', JBool False),
                               (''message'', JStr msg_error_crear_resena),
                               (''error'', JErrorMessage error)]))
           | Inr (d', rv) \<Rightarrow>
               (d', (201, JObj [(''success'', JBool True),
                                (''message'', JStr msg_resena_creada),
                                (''review'', review_json rv)])))"

text \<open>Variant 2 hands the whole body to the model, the field \<open>date\<close> included.\<close>

definition createReview2 ::
  "casts \<Rightarrow> nat \<Rightarrow> db \<Rightarrow> string option \<Rightarrow> string option \<Rightarrow> int option \<Rightarrow> string option \<Rightarrow>
   string option \<Rightarrow> string option \<Rightarrow> string option \<Rightarrow> string option \<Rightarrow> db \<times> response" where
  "createReview2 C now d userId userName rating comment problemDate problemDescription
     toolsUsed date =
     (case save_review C now d userId userName rating comment problemDate
             problemDescription toolsUsed date of
        Inl error \<Rightarrow> (d, reply 500 False msg_error_crear_resena)
      | Inr (d', rv) \<Rightarrow>
          (d', (201, JObj [(''success'', JBool True),
                           (''message'', JStr msg_resena_creada),
                           (''review'', review_json rv)])))"

text \<open>
  Modelled from the spec: the query \<open>Review.find().sort({ date: -1 })\<close>, answered by
  the database, which is not part of the repository. The spec: listReviews "returns
  all reviews sorted by creation date descending; no pagination".
\<close>

definition find_sort_date_desc :: "db \<Rightarrow> review list" where
  "find_sort_date_desc d = rev (sort_key review_date (reviews d))"

text \<open>\<open>GET /api/reviews\<close>, the same in both variants.\<close>

definition listReviews :: "db \<Rightarrow> response" where
  "listReviews d =
     (200, JObj [(''success'', JBool True),
                 (''reviews'', JArr (map review_json (find_sort_date_desc d)))])"

subsection \<open>Startup\<close>

text \<open>
  The environment variables the server reads, and what becomes of the process: it
  exits with a code, it dies of an uncaught error, or it goes on to listen with the
  configuration it read.
\<close>

record env =
  env_JWT_SECRET :: "string option"
  env_MONGO_URI :: "string option"
  env_PORT :: "string option"

record config =
  cfg_JWT_SECRET :: string
  cfg_MONGO_URI :: string
  cfg_PORT :: "string + nat"

datatype startup = Exit nat | Uncaught string | Listening config

text \<open>\<open>process.env.PORT || 3000\<close>.\<close>

definition port_or_3000 :: "string option \<Rightarrow> string + nat" where
  "port_or_3000 p = (if js_not p then Inr 3000 else Inl (the p))"

definition msg_mongo_uri :: string where
  "msg_mongo_uri = [CHR 0xE2, CHR 0x9D, CHR 0x8C] @ '' ERROR: La variable MONGO_URI no est''
     @ a_acute @ '' configurada.''"

text \<open>
  Variant 1: the check of both variables, then \<open>mongoose.connect(MONGO_URI)\<close>, whose
  catch handler exits with code 1. Whether the connection to a URI is established is
  the parameter \<open>connects\<close>.
\<close>

definition startup1 :: "(string \<Rightarrow> bool) \<Rightarrow> env \<Rightarrow> startup" where
  "startup1 connects e =
     (if js_not (env_JWT_SECRET e) \<or> js_not (env_MONGO_URI e) then Exit 1
      else if connects (the (env_MONGO_URI e))
      then Listening \<lparr>cfg_JWT_SECRET = the (env_JWT_SECRET e),
                      cfg_MONGO_URI = the (env_MONGO_URI e),
                      cfg_PORT = port_or_3000 (env_PORT e)\<rparr>
      else Exit 1)"

text \<open>
  Variant 2: \<open>process.env.JWT_SECRET || "fallback_secret"\<close>, then the check of MONGO_URI
  alone. The catch handler of its \<open>mongoose.connect\<close> only logs the error, so the
  outcome does not depend on the connection.
\<close>

definition startup2 :: "env \<Rightarrow> startup" where
  "startup2 e =
     (let JWT_SECRET = (if js_not (env_JWT_SECRET e) then ''fallback_secret''
                        else the (env_JWT_SECRET e))
      in if js_not (env_MONGO_URI e) then Uncaught msg_mongo_uri
         else Listening \<lparr>cfg_JWT_SECRET = JWT_SECRET,
                         cfg_MONGO_URI = the (env_MONGO_URI e),
                         cfg_PORT = port_or_3000 (env_PORT e)\<rparr>)"

subsection \<open>Example data\<close>

text \<open>
  Concrete stand-ins for the library functions and a few store states, for the
  examples below: a hash that reverses the password behind a prefix and the salt, a
  keyed signature, and a serialisation given by a table of two tokens.
\<close>

definition example_hash :: "string \<Rightarrow> nat \<Rightarrow> string \<Rightarrow> string" where
  "example_hash salt cost password = ''$2a$'' @ salt @ rev password"

definition empty_db :: db where
  "empty_db = \<lparr>users = [], reviews = [], problems = []\<rparr>"

text \<open>Ana as variant 1 stores her (salt \<open>s\<close>, password \<open>pw123\<close>), and as variant 2 does.\<close>

definition ana :: user where
  "ana = \<lparr>user_id = 1, user_name = Some ''Ana'', user_email = Some ''a@x.com'',
          user_password = Some ''$2a$s321wp''\<rparr>"

definition ana_db :: db where
  "ana_db = \<lparr>users = [ana], reviews = [], problems = []\<rparr>"

definition ana2_db :: db where
  "ana2_db = \<lparr>users = [\<lparr>user_id = 1, user_name = Some ''Ana'', user_email = Some ''a@x.com'',
                         user_password = Some ''pw123''\<rparr>], reviews = [], problems = []\<rparr>"

text \<open>The payload of a token issued to Ana at second 1000: it expires at second 87400.\<close>

definition ana_payload :: jwt_payload where
  "ana_payload = \<lparr>jwt_userId = 1, jwt_email = Some ''a@x.com'', jwt_iat = 1000,
                  jwt_exp = 87400\<rparr>"

definition example_hmac :: "string \<Rightarrow> jwt_payload \<Rightarrow> string" where
  "example_hmac k p = rev k @ (case jwt_email p of None \<Rightarrow> [] | Some e \<Rightarrow> e)"

text \<open>\<open>tokA\<close> is Ana's token signed with the secret \<open>s3cret\<close>; \<open>tokF\<close> is a forgery.\<close>

definition example_tokens :: "(string \<times> jwt) list" where
  "example_tokens =
     [(''tokA'', \<lparr>jwt_body = ana_payload, jwt_sig = example_hmac ''s3cret'' ana_payload\<rparr>),
      (''tokF'', \<lparr>jwt_body = ana_payload, jwt_sig = ''forged''\<rparr>)]"

text \<open>
  Stand-ins for the casts of Mongoose: one ObjectId and two dates, 900 and 500
  milliseconds after the epoch.
\<close>

definition example_casts :: casts where
  "example_casts =
     \<lparr>castObjectId = map_of [(''64f000000000000000000001'', 1)],
      castDate = map_of [(''1970-01-01T00:00:00.900Z'', 900),
                         (''1970-01-01T00:00:00.500Z'', 500)]\<rparr>"

definition example_lib :: jwt_lib where
  "example_lib =
     \<lparr>hmac = example_hmac,
      jwt_encode = (\<lambda>t. case find (\<lambda>e. snd e = t) example_tokens of
                           None \<Rightarrow> [] | Some e \<Rightarrow> fst e),
      jwt_decode = map_of example_tokens\<rparr>"

section \<open>Properties\<close>

subsection \<open>Reading the token out of the Authorization header\<close>

lemma js_split_not_Nil: "js_split sep s \<noteq> []"
  by (induction s) (auto split: list.splits)

lemma js_split_no_sep: "sep \<notin> set w \<Longrightarrow> js_split sep w = [w]"
  by (induction w) auto

lemma js_split_append:
  "sep \<notin> set w \<Longrightarrow> js_split sep (w @ sep # rest) = w # js_split sep rest"
  by (induction w) (auto split: list.splits simp: js_split_not_Nil)

lemma header_token1_Bearer:
  assumes "CHR '' '' \<notin> set tok"
  shows "header_token1 (Some (''Bearer '' @ tok)) = Some tok"
proof -
  have "js_split CHR '' '' (''Bearer'' @ CHR '' '' # tok) = ''Bearer'' # js_split CHR '' '' tok"
    by (rule js_split_append) simp
  then have "js_split CHR '' '' (''Bearer '' @ tok) = [''Bearer'', tok]"
    using assms by (simp add: js_split_no_sep)
  then show ?thesis
    by (simp add: header_token1_def js_not_def js_index_def)
qed

lemma header_token2_Bearer:
  assumes "CHR '' '' \<notin> set tok"
  shows "header_token2 (Some (''Bearer '' @ tok)) = Some tok"
proof -
  have "js_split CHR '' '' (''Bearer'' @ CHR '' '' # tok) = ''Bearer'' # js_split CHR '' '' tok"
    by (rule js_split_append) simp
  then have "js_split CHR '' '' (''Bearer '' @ tok) = [''Bearer'', tok]"
    using assms by (simp add: js_split_no_sep)
  then show ?thesis
    by (simp add: header_token2_def js_index_def)
qed

subsection \<open>Registration: what each outcome leaves in the store\<close>

lemma register1_failure:
  assumes "js_not name \<or> js_not email \<or> js_not password \<or> findOne_email d email \<noteq> None"
  shows "register1 H salt d name email password =
           (d, reply 400 False (if js_not name \<or> js_not email \<or> js_not password
                                then msg_campos_registro else msg_usuario_existe))"
  using assms by (auto simp: register1_def split: option.splits)

lemma save_user1_fresh:
  "findOne_email d (user_email u) = None \<Longrightarrow> save_user1 d u = Inr (d\<lparr>users := users d @ [u]\<rparr>)"
  by (simp add: save_user1_def findOne_email_def)

lemma register1_success:
  assumes "\<not> js_not name" "\<not> js_not email" "\<not> js_not password" "findOne_email d email = None"
  shows "register1 H salt d name email password =
           (d\<lparr>users := users d @
                [\<lparr>user_id = new_ObjectId (map user_id (users d)), user_name = name,
                  user_email = email, user_password = Some (H salt 10 (the password))\<rparr>]\<rparr>,
            reply 201 True msg_usuario_registrado)"
  using assms by (simp add: register1_def Let_def save_user1_fresh)





lemma register2_failure:
  "findOne_email d email \<noteq> None \<Longrightarrow>
   register2 d name email password = (d, reply 400 False msg_usuario_existe)"
  by (auto simp: register2_def split: option.splits)

lemma register2_success:
  "findOne_email d email = None \<Longrightarrow>
   register2 d name email password =
     (d\<lparr>users := users d @
          [\<lparr>user_id = new_ObjectId (map user_id (users d)), user_name = name,
            user_email = email, user_password = password\<rparr>]\<rparr>,
      reply 200 True msg_usuario_registrado)"
  by (simp add: register2_def save_user2_def)



lemmas example_defs = example_hash_def empty_db_def ana_def ana_db_def
  ana2_db_def ana_payload_def example_hmac_def example_tokens_def example_lib_def
  example_casts_def



text \<open>
  The invariant of the data model, "identity is unique across all accounts", is kept
  by both variants of register.
\<close>

lemma register1_keeps_emails_distinct:
  assumes "distinct (map user_email (users d))"
  shows "distinct (map user_email (users (fst (register1 H salt d name email password))))"
proof (cases "js_not name \<or> js_not email \<or> js_not password \<or> findOne_email d email \<noteq> None")
  case True
  then show ?thesis using assms by (simp add: register1_failure)
next
  case False
  then have "\<not> js_not name" "\<not> js_not email" "\<not> js_not password"
    and none: "findOne_email d email = None" by auto
  from register1_success[OF this, of H salt] none assms show ?thesis
    by (auto simp: findOne_email_def find_None_iff)
qed

lemma register2_keeps_emails_distinct:
  assumes "distinct (map user_email (users d))"
  shows "distinct (map user_email (users (fst (register2 d name email password))))"
proof (cases "findOne_email d email")
  case None
  from register2_success[OF this] None assms show ?thesis
    by (auto simp: findOne_email_def find_None_iff)
next
  case (Some u)
  then show ?thesis using assms by (simp add: register2_failure)
qed

subsection \<open>Stored credentials\<close>

text \<open>
  Variant 1 stores the bcrypt hash of the password, computed with cost 10 and the salt
  drawn for the call, and nothing else of the password.
\<close>

lemma register1_stores_hash:
  assumes "register1 H salt d name email password = (d', reply 201 True msg_usuario_registrado)"
  shows "\<exists>pw. password = Some pw \<and>
           users d' = users d @
             [\<lparr>user_id = new_ObjectId (map user_id (users d)), user_name = name,
               user_email = email, user_password = Some (H salt 10 pw)\<rparr>]"
proof (cases "js_not name \<or> js_not email \<or> js_not password \<or> findOne_email d email \<noteq> None")
  case True
  from register1_failure[OF this, of H salt] assms show ?thesis
    by (simp add: reply_def)
next
  case False
  then obtain pw where pw: "password = Some pw"
    by (cases password) (auto simp: js_not_def)
  from False have "\<not> js_not name" "\<not> js_not email" "\<not> js_not password"
    "findOne_email d email = None" by auto
  from register1_success[OF this, of H salt] assms pw show ?thesis by auto
qed

text \<open>
  C1. Every account that a successful register call persists holds only a one-way
  salted hash of the secret, never the plaintext. Variant 1 does so
  (\<open>register1_stores_hash\<close>); variant 2 does not: registering Ana with the password
  \<open>pw123\<close> on an empty store succeeds and persists the password \<open>pw123\<close> itself.
\<close>

theorem register2_stores_plaintext:
  "register2 empty_db (Some ''Ana'') (Some ''a@x.com'') (Some ''pw123'') =
     (\<lparr>users = [\<lparr>user_id = 1, user_name = Some ''Ana'', user_email = Some ''a@x.com'',
                  user_password = Some ''pw123''\<rparr>],
       reviews = [], problems = []\<rparr>,
      reply 200 True msg_usuario_registrado)"
  by (simp add: register2_def findOne_email_def empty_db_def save_user2_def new_ObjectId_def)

subsection \<open>Login\<close>

lemma filter_String_string:
  "filter_String cast (Some (JSString s)) = Inr (\<lambda>x. x = Some s)"
  by (simp add: filter_String_def)

text \<open>A login of variant 1 that passes every check answers with a fresh token.\<close>

lemma login1_success:
  assumes "e \<noteq> []" and "pw \<noteq> []" and "findOne_email d (Some e) = Some u"
      and "bcrypt_compare pw (user_password u) = Inr True"
  shows "login1 cast bcrypt_compare L S now d (Some (JSString e)) (Some (JSString pw)) =
           login_ok (login_token L S now u) u"
  using assms
  by (simp add: login1_def js_falsy_def filter_String_string bcrypt_compare_js_def
      findOne_email_def)

text \<open>
  For an email and a secret that are strings, variant 1 gives one response to the
  identity that is absent (\<open>d1\<close>) and to the identity whose stored hash the secret does
  not match (\<open>d2\<close>): 401 with the message "Credenciales invalidas" when neither string
  is empty.
\<close>

lemma login1_string_secret_same_response:
  assumes "findOne_email d1 (Some e) = None" and "findOne_email d2 (Some e) = Some u"
      and "bcrypt_compare pw (user_password u) = Inr False"
  shows "login1 cast bcrypt_compare L S now d1 (Some (JSString e)) (Some (JSString pw)) =
           login1 cast bcrypt_compare L S now d2 (Some (JSString e)) (Some (JSString pw))"
    and "e \<noteq> [] \<Longrightarrow> pw \<noteq> [] \<Longrightarrow>
           login1 cast bcrypt_compare L S now d2 (Some (JSString e)) (Some (JSString pw)) =
             reply 401 False msg_credenciales"
  using assms
  by (simp_all add: login1_def js_falsy_def filter_String_string bcrypt_compare_js_def
      findOne_email_def)

text \<open>
  Variant 2 gives every failing login of one body the same response, whatever the
  store holds and whatever the values of the body are.
\<close>

lemma login2_failure_same_response:
  assumes "fst (login2 cast L S now d1 email password) \<noteq> 200"
      and "fst (login2 cast L S now d2 email password) \<noteq> 200"
  shows "login2 cast L S now d1 email password = login2 cast L S now d2 email password"
  using assms
  by (auto simp: login2_def login_ok_def split: sum.splits option.splits)

text \<open>
  C2. When credential verification fails, the response (status code and body) is the
  same whether the identity is absent from the store or present with a secret that
  does not match. Variant 2 does so for every body (\<open>login2_failure_same_response\<close>),
  and variant 1 for a secret that is a string (\<open>login1_string_secret_same_response\<close>).
  Variant 1 does not for a secret that is not a string: the body
  \<open>{ email: "a@x.com", password: 12345 }\<close> passes the check of the fields, and
  \<open>bcrypt.compare\<close> rejects the number. Where Ana is registered the answer is the 500
  of the catch block, where nobody is it is the 401 of the lookup, whatever the
  libraries do with other values.
\<close>

theorem login1_number_secret_tells_identity:
  "login1 cast bcrypt_compare L S now ana_db
     (Some (JSString ''a@x.com'')) (Some (JSNumber 12345)) =
     reply 500 False msg_error_interno \<and>
   login1 cast bcrypt_compare L S now empty_db
     (Some (JSString ''a@x.com'')) (Some (JSNumber 12345)) =
     reply 401 False msg_credenciales"
  by (simp add: login1_def js_falsy_def filter_String_string bcrypt_compare_js_def
      ana_db_def ana_def empty_db_def)

subsection \<open>Token verification\<close>

lemma jwt_verify_rejects:
  assumes "jwt_decode L tok = Some t"
      and "jwt_sig t \<noteq> hmac L secret (jwt_body t) \<or> jwt_exp (jwt_body t) \<le> now"
  shows "jwt_verify L tok secret now =
           Inl (if jwt_sig t \<noteq> hmac L secret (jwt_body t) then JsonWebTokenError
                else TokenExpiredError)"
  using assms by (auto simp: jwt_verify_def)

lemma jwt_verify_accepts:
  assumes "jwt_decode L tok = Some t" and "jwt_sig t = hmac L secret (jwt_body t)"
      and "now < jwt_exp (jwt_body t)"
  shows "jwt_verify L tok secret now = Inr (jwt_body t)"
  using assms by (simp add: jwt_verify_def)

text \<open>
  C3, as the code has it. A token that \<open>jwt.verify\<close> rejects, because its signature does
  not match (at any time, and checked first) or because its signature matches and its
  expiry has passed, gets one and the same answer: 403 "Token invalido" from the
  middleware of variant 1 and 401 "Token invalido" from variant 2. The library
  tells an expired token (TokenExpiredError) from an invalid one (JsonWebTokenError);
  the handlers do not pass the difference on.
\<close>

theorem rejected_token_answers_token_invalido:
  assumes "CHR '' '' \<notin> set tok" and "tok \<noteq> []" and "jwt_decode L tok = Some t"
      and "jwt_sig t \<noteq> hmac L secret (jwt_body t) \<or> jwt_exp (jwt_body t) \<le> now"
  shows "jwt_verify L tok secret now =
           Inl (if jwt_sig t \<noteq> hmac L secret (jwt_body t) then JsonWebTokenError
                else TokenExpiredError) \<and>
         authenticateToken L secret now (Some (''Bearer '' @ tok)) =
           Inl (reply 403 False msg_token_invalido) \<and>
         verify1 L secret now d (Some (''Bearer '' @ tok)) = reply 403 False msg_token_invalido \<and>
         verify2 L secret now d (Some (''Bearer '' @ tok)) = reply 401 False msg_token_invalido"
proof -
  note v = jwt_verify_rejects[OF assms(3,4)]
  have t1: "header_token1 (Some (''Bearer '' @ tok)) = Some tok"
    using assms(1) by (rule header_token1_Bearer)
  have t2: "header_token2 (Some (''Bearer '' @ tok)) = Some tok"
    using assms(1) by (rule header_token2_Bearer)
  have a: "authenticateToken L secret now (Some (''Bearer '' @ tok)) =
           Inl (reply 403 False msg_token_invalido)"
    unfolding authenticateToken_def t1 using assms(2) v by (simp add: js_not_def)
  have b: "verify2 L secret now d (Some (''Bearer '' @ tok)) = reply 401 False msg_token_invalido"
    unfolding verify2_def t2 using assms(2) v by (simp add: js_not_def)
  show ?thesis using v a b by (simp add: verify1_def)
qed

theorem rejected_token_answers_token_invalido_witness:
  "CHR '' '' \<notin> set ''tokA'' \<and> ''tokA'' \<noteq> [] \<and>
   jwt_decode example_lib ''tokA'' =
     Some \<lparr>jwt_body = ana_payload, jwt_sig = example_hmac ''s3cret'' ana_payload\<rparr> \<and>
   jwt_exp ana_payload \<le> 87400 \<and>
   jwt_verify example_lib ''tokA'' ''s3cret'' 87400 = Inl TokenExpiredError \<and>
   authenticateToken example_lib ''s3cret'' 87400 (Some ''Bearer tokA'') =
     Inl (reply 403 False msg_token_invalido) \<and>
   verify1 example_lib ''s3cret'' 87400 ana_db (Some ''Bearer tokA'') =
     reply 403 False msg_token_invalido \<and>
   verify2 example_lib ''s3cret'' 87400 ana_db (Some ''Bearer tokA'') =
     reply 401 False msg_token_invalido"
proof -
  have h1: "CHR '' '' \<notin> set ''tokA''" and h2: "''tokA'' \<noteq> []" by simp_all
  have h3: "jwt_decode example_lib ''tokA'' =
      Some \<lparr>jwt_body = ana_payload, jwt_sig = example_hmac ''s3cret'' ana_payload\<rparr>"
    by (simp add: example_lib_def example_tokens_def)
  have h4: "jwt_exp ana_payload \<le> 87400" by (simp add: ana_payload_def)
  have h5: "jwt_sig \<lparr>jwt_body = ana_payload, jwt_sig = example_hmac ''s3cret'' ana_payload\<rparr>
              \<noteq> hmac example_lib ''s3cret''
                   (jwt_body \<lparr>jwt_body = ana_payload, jwt_sig = example_hmac ''s3cret'' ana_payload\<rparr>)
            \<or> jwt_exp (jwt_body \<lparr>jwt_body = ana_payload,
                   jwt_sig = example_hmac ''s3cret'' ana_payload\<rparr>) \<le> 87400"
    using h4 by simp
  have sig: "hmac example_lib = example_hmac" by (simp add: example_lib_def)
  from rejected_token_answers_token_invalido [OF h1 h2 h3 h5, of ana_db] h1 h2 h3 h4 sig
  show ?thesis by simp
qed

text \<open>
  The claim as the spec states it fails: at second 87400 Ana's token \<open>tokA\<close> carries a
  valid signature and has expired, and both variants answer it with "Token invalido",
  the very answer the forged token \<open>tokF\<close> gets.
\<close>

theorem expired_token_counterexample:
  "jwt_verify example_lib ''tokA'' ''s3cret'' 87400 = Inl TokenExpiredError \<and>
   jwt_verify example_lib ''tokF'' ''s3cret'' 87400 = Inl JsonWebTokenError \<and>
   authenticateToken example_lib ''s3cret'' 87400 (Some ''Bearer tokA'') =
     Inl (reply 403 False msg_token_invalido) \<and>
   authenticateToken example_lib ''s3cret'' 87400 (Some ''Bearer tokF'') =
     Inl (reply 403 False msg_token_invalido) \<and>
   verify2 example_lib ''s3cret'' 87400 ana_db (Some ''Bearer tokA'') =
     reply 401 False msg_token_invalido \<and>
   verify2 example_lib ''s3cret'' 87400 ana_db (Some ''Bearer tokF'') =
     reply 401 False msg_token_invalido"
  by (simp add: example_defs jwt_verify_def authenticateToken_def verify2_def
      header_token1_def header_token2_def js_not_def js_index_def)

subsection \<open>Registering an identity twice\<close>



subsection \<open>A token from login to the middleware\<close>

text \<open>
  C5. The token that login issues for an account, presented as \<open>Bearer <token>\<close> at any
  second \<open>t\<close> before its expiry 24 hours (86400 seconds) after issue, passes the
  middleware, which hands on exactly the account's id and identity (with the issue and
  expiry times). The serialisation of the token is assumed to be a non-empty string
  without a space that parses back to the token.
\<close>

theorem login_token_round_trip:
  assumes codec: "compact_serialisation L
                    \<lparr>jwt_body = \<lparr>jwt_userId = user_id u, jwt_email = user_email u,
                                 jwt_iat = now, jwt_exp = now + 86400\<rparr>,
                     jwt_sig = hmac L secret \<lparr>jwt_userId = user_id u, jwt_email = user_email u,
                                              jwt_iat = now, jwt_exp = now + 86400\<rparr>\<rparr>"
      and before: "t < now + 86400"
  shows "authenticateToken L secret t (Some (''Bearer '' @ login_token L secret now u)) =
           Inr \<lparr>jwt_userId = user_id u, jwt_email = user_email u, jwt_iat = now,
                jwt_exp = now + 86400\<rparr>"
proof -
  let ?p = "\<lparr>jwt_userId = user_id u, jwt_email = user_email u, jwt_iat = now,
             jwt_exp = now + 86400\<rparr>"
  let ?tk = "\<lparr>jwt_body = ?p, jwt_sig = hmac L secret ?p\<rparr>"
  have tok: "login_token L secret now u = jwt_encode L ?tk"
    by (simp add: login_token_def jwt_sign_def Let_def)
  have dec: "jwt_decode L (jwt_encode L ?tk) = Some ?tk"
    and ne: "jwt_encode L ?tk \<noteq> []"
    and sp: "CHR '' '' \<notin> set (jwt_encode L ?tk)"
    using codec by (simp_all add: compact_serialisation_def)
  have hdr: "header_token1 (Some (''Bearer '' @ jwt_encode L ?tk)) = Some (jwt_encode L ?tk)"
    using sp by (rule header_token1_Bearer)
  have ver: "jwt_verify L (jwt_encode L ?tk) secret t = Inr (jwt_body ?tk)"
    by (rule jwt_verify_accepts[OF dec]) (use before in simp_all)
  show ?thesis
    unfolding tok authenticateToken_def hdr using ne ver by (simp add: js_not_def)
qed

lemma ana_login_token: "login_token example_lib ''s3cret'' 1000 ana = ''tokA''"
  by (simp add: login_token_def jwt_sign_def Let_def ana_def example_lib_def
      example_tokens_def ana_payload_def example_hmac_def)

theorem login_token_round_trip_witness:
  "compact_serialisation example_lib
     \<lparr>jwt_body = ana_payload, jwt_sig = example_hmac ''s3cret'' ana_payload\<rparr> \<and>
   (87399::nat) < 1000 + 86400 \<and>
   login_token example_lib ''s3cret'' 1000 ana = ''tokA'' \<and>
   authenticateToken example_lib ''s3cret'' 87399 (Some ''Bearer tokA'') =
     Inr \<lparr>jwt_userId = 1, jwt_email = Some ''a@x.com'', jwt_iat = 1000, jwt_exp = 87400\<rparr>"
proof -
  have codec: "compact_serialisation example_lib
     \<lparr>jwt_body = ana_payload, jwt_sig = example_hmac ''s3cret'' ana_payload\<rparr>"
    by (simp add: compact_serialisation_def example_lib_def example_tokens_def)
  have codec': "compact_serialisation example_lib
     \<lparr>jwt_body = \<lparr>jwt_userId = user_id ana, jwt_email = user_email ana,
                  jwt_iat = 1000, jwt_exp = 1000 + 86400\<rparr>,
      jwt_sig = hmac example_lib ''s3cret''
                  \<lparr>jwt_userId = user_id ana, jwt_email = user_email ana,
                   jwt_iat = 1000, jwt_exp = 1000 + 86400\<rparr>\<rparr>"
    by (simp add: compact_serialisation_def example_lib_def example_tokens_def ana_def
        ana_payload_def)
  have before: "(87399::nat) < 1000 + 86400" by simp
  have r: "authenticateToken example_lib ''s3cret'' 87399
             (Some (''Bearer '' @ login_token example_lib ''s3cret'' 1000 ana)) =
           Inr \<lparr>jwt_userId = user_id ana, jwt_email = user_email ana, jwt_iat = 1000,
                jwt_exp = 1000 + 86400\<rparr>"
    by (rule login_token_round_trip [OF codec' before])
  have "authenticateToken example_lib ''s3cret'' 87399 (Some ''Bearer tokA'') =
     Inr \<lparr>jwt_userId = 1, jwt_email = Some ''a@x.com'', jwt_iat = 1000, jwt_exp = 87400\<rparr>"
    using r unfolding ana_login_token by (simp add: ana_def)
  with codec before ana_login_token show ?thesis by simp
qed

subsection \<open>Problem reports\<close>

lemma normalized_alta: "normalizedUrgency ''alta'' = ''Alta''"
  by code_simp

lemma normalized_urgente: "normalizedUrgency ''urgente'' = ''Urgente''"
  by code_simp

text \<open>
  Variant 1 answers 400 to a call with a field missing and to an urgency outside the
  set after normalisation, and stores the normalised urgency otherwise.
\<close>

lemma createProblem1_missing:
  assumes "js_not title \<or> js_not description \<or> js_not category \<or> js_not urgency"
  shows "createProblem1 now d title description category urgency =
           (d, reply 400 False msg_todos_los_campos)"
  using assms by (simp add: createProblem1_def)

lemma createProblem1_valid:
  assumes "\<not> js_not title" "\<not> js_not description" "\<not> js_not category" "\<not> js_not urgency"
  shows "createProblem1 now d title description category urgency =
           (if normalizedUrgency (the urgency) \<in> set validUrgencies
            then (d\<lparr>problems := problems d @
                     [\<lparr>problem_title = the title, problem_description = the description,
                       problem_category = the category,
                       problem_urgency = normalizedUrgency (the urgency),
                       problem_createdAt = now\<rparr>]\<rparr>,
                  reply 201 True msg_problema_guardado)
            else (d, reply 400 False msg_urgencia_no_valida))"
  using assms
  by (auto simp: createProblem1_def save_problem_def validUrgencies_def js_not_def)

lemma createProblem1_alta:
  "createProblem1 now empty_db (Some ''t'') (Some ''d'') (Some ''c'') (Some ''alta'') =
     (\<lparr>users = [], reviews = [],
       problems = [\<lparr>problem_title = ''t'', problem_description = ''d'',
                    problem_category = ''c'', problem_urgency = ''Alta'',
                    problem_createdAt = now\<rparr>]\<rparr>,
      reply 201 True msg_problema_guardado)"
  by (simp add: createProblem1_valid js_not_def normalized_alta validUrgencies_def empty_db_def)

lemma createProblem1_urgente:
  "createProblem1 now d (Some ''t'') (Some ''d'') (Some ''c'') (Some ''urgente'') =
     (d, reply 400 False msg_urgencia_no_valida)"
  by (simp add: createProblem1_valid js_not_def normalized_urgente validUrgencies_def)

lemma createProblem2_alta:
  "createProblem2 now empty_db (Some ''t'') (Some ''d'') (Some ''c'') (Some ''alta'') =
     (\<lparr>users = [], reviews = [],
       problems = [\<lparr>problem_title = ''t'', problem_description = ''d'',
                    problem_category = ''c'', problem_urgency = ''Alta'',
                    problem_createdAt = now\<rparr>]\<rparr>,
      reply 201 True msg_problema_guardado)"
  by (simp add: createProblem2_def save_problem_def js_not_def normalized_alta empty_db_def)

text \<open>
  C6. createProblem normalises the urgency and succeeds only for an urgency of the
  set, failing otherwise with a ValidationError, HTTP 400. Variant 1 does so
  (\<open>createProblem1_valid\<close>, \<open>createProblem1_alta\<close>, \<open>createProblem1_urgente\<close>); variant 2
  rejects the urgency \<open>urgente\<close> too, but with HTTP 500 and the message of its catch
  block.
\<close>

theorem createProblem2_urgente_500:
  "createProblem2 now d (Some ''t'') (Some ''d'') (Some ''c'') (Some ''urgente'') =
     (d, reply 500 False msg_problema_no_guardado)"
  by (simp add: createProblem2_def save_problem_def js_not_def normalized_urgente)

subsection \<open>Startup\<close>

text \<open>
  Variant 1 exits when the signing secret or the connection string is absent or empty,
  and listens only with both as the environment gave them and the database connected.
\<close>

lemma startup1_exits:
  "js_not (env_JWT_SECRET e) \<or> js_not (env_MONGO_URI e) \<Longrightarrow> startup1 connects e = Exit 1"
  by (simp add: startup1_def)

lemma startup1_listens:
  "startup1 connects e = Listening c \<Longrightarrow>
   env_JWT_SECRET e = Some (cfg_JWT_SECRET c) \<and> cfg_JWT_SECRET c \<noteq> [] \<and>
   env_MONGO_URI e = Some (cfg_MONGO_URI c) \<and> cfg_MONGO_URI c \<noteq> [] \<and>
   connects (cfg_MONGO_URI c)"
  by (auto simp: startup1_def js_not_def split: if_splits option.splits)

text \<open>With both variables set and the database out of reach, variant 1 exits too.\<close>

lemma startup1_without_connection:
  "\<not> connects (the (env_MONGO_URI e)) \<Longrightarrow> startup1 connects e = Exit 1"
  by (simp add: startup1_def)

lemma startup2_without_MONGO_URI:
  "js_not (env_MONGO_URI e) \<Longrightarrow> startup2 e = Uncaught msg_mongo_uri"
  by (simp add: startup2_def Let_def)

text \<open>
  C7. The signing secret and the connection string are both mandatory at startup: the
  process exits if either is absent. Variant 1 does so (\<open>startup1_exits\<close>); variant 2
  started without JWT_SECRET goes on to listen, with the secret \<open>fallback_secret\<close>.
\<close>

theorem startup2_default_secret:
  "startup2 \<lparr>env_JWT_SECRET = None, env_MONGO_URI = Some ''mongodb://db/app'', env_PORT = None\<rparr> =
     Listening \<lparr>cfg_JWT_SECRET = ''fallback_secret'', cfg_MONGO_URI = ''mongodb://db/app'',
                cfg_PORT = Inr 3000\<rparr>"
  by (simp add: startup2_def js_not_def port_or_3000_def)

lemma startup1_same_env_exits:
  "startup1 connects \<lparr>env_JWT_SECRET = None, env_MONGO_URI = Some ''mongodb://db/app'', env_PORT = None\<rparr> =
     Exit 1"
  by (simp add: startup1_def js_not_def)

subsection \<open>Reviews\<close>

lemma sorted_wrt_rev_flip: "sorted_wrt P (rev xs) = sorted_wrt (\<lambda>a b. P b a) xs"
  by (induction xs) (auto simp: sorted_wrt_append)

text \<open>The listing holds every stored review once, the latest date first.\<close>

lemma find_sort_date_desc_all: "mset (find_sort_date_desc d) = mset (reviews d)"
  by (simp add: find_sort_date_desc_def)

lemma find_sort_date_desc_sorted:
  "sorted_wrt (\<lambda>a b. review_date b \<le> review_date a) (find_sort_date_desc d)"
proof -
  have "sorted (map review_date (sort_key review_date (reviews d)))"
    by (rule sorted_sort_key)
  then have "sorted_wrt (\<lambda>a b. review_date a \<le> review_date b) (sort_key review_date (reviews d))"
    by (simp add: sorted_wrt_map)
  then show ?thesis
    by (simp add: find_sort_date_desc_def sorted_wrt_rev_flip)
qed

text \<open>
  In variant 1 the date of a review is the server's: a review that createReview stores
  carries the clock of the call as its date, so the order of the dates is the order of
  creation.
\<close>

lemma save_review_date:
  assumes "save_review C now d userId userName rating comment problemDate problemDescription
             toolsUsed date = Inr (d', r)"
  shows "reviews d' = reviews d @ [r] \<and>
         review_date r = (case date of None \<Rightarrow> now | Some dt \<Rightarrow> the (castDate C dt))"
  using assms
  by (auto simp: save_review_def Let_def split: option.splits if_splits)

lemma createReview1_date_is_clock:
  assumes "createReview1 C now d userId userName rating comment problemDate problemDescription
             toolsUsed = (d', (201, body))"
  shows "\<exists>r. reviews d' = reviews d @ [r] \<and> review_date r = now"
proof (cases "save_review C now d userId userName rating comment problemDate
                problemDescription toolsUsed None")
  case (Inl e)
  with assms show ?thesis
    by (simp add: createReview1_def reply_def split: if_splits)
next
  case (Inr p)
  obtain d'' r where p: "p = (d'', r)" by (cases p)
  from assms Inr p have "d'' = d'"
    by (simp add: createReview1_def reply_def split: if_splits)
  with save_review_date[OF Inr[unfolded p]] show ?thesis by auto
qed

lemma createReview1_twice_listed_latest_first:
  "listReviews
     (fst (createReview1 example_casts 2000
        (fst (createReview1 example_casts 1000 empty_db
                (Some ''64f000000000000000000001'') (Some ''Ana'') (Some 5) (Some ''ok'')
                (Some ''1970-01-01T00:00:00.900Z'') (Some ''slow'') (Some ''ssh'')))
        (Some ''64f000000000000000000001'') (Some ''Bea'') (Some 4) (Some ''fine'')
        (Some ''1970-01-01T00:00:00.900Z'') (Some ''crash'') (Some ''gdb''))) =
   (200, JObj [(''success'', JBool True),
      (''reviews'', JArr
         [JObj [(''userId'', JOid 1), (''userName'', JStr ''Bea''), (''problemDate'', JDate 900),
                (''problemDescription'', JStr ''crash''), (''toolsUsed'', JStr ''gdb''),
                (''rating'', JNum 4), (''comment'', JStr ''fine''), (''_id'', JOid 2),
                (''date'', JDate 2000), (''__v'', JNum 0)],
          JObj [(''userId'', JOid 1), (''userName'', JStr ''Ana''), (''problemDate'', JDate 900),
                (''problemDescription'', JStr ''slow''), (''toolsUsed'', JStr ''ssh''),
                (''rating'', JNum 5), (''comment'', JStr ''ok''), (''_id'', JOid 1),
                (''date'', JDate 1000), (''__v'', JNum 0)]])])"
  by (simp add: listReviews_def find_sort_date_desc_def review_json_def createReview1_def
      save_review_def js_not_def js_not_num_def example_casts_def empty_db_def
      new_ObjectId_def Let_def)

text \<open>
  C8. listReviews returns all stored reviews, with no pagination, sorted by their
  server-assigned creation date, latest first. The listing holds every stored review
  and is ordered by the field \<open>date\<close> (\<open>find_sort_date_desc_all\<close>,
  \<open>find_sort_date_desc_sorted\<close>), and in variant 1 that field is the clock of the
  creation (\<open>createReview1_date_is_clock\<close>). In variant 2 it is whatever the body
  gave: Ana's review is created at 1000 without a date, Bea's at 2000 with the date
  500 in its body, and the listing has Ana's review first, the one created earlier.
\<close>

theorem listReviews_client_date_breaks_creation_order:
  "listReviews
     (fst (createReview2 example_casts 2000
        (fst (createReview2 example_casts 1000 empty_db
                (Some ''64f000000000000000000001'') (Some ''Ana'') (Some 5) (Some ''ok'')
                (Some ''1970-01-01T00:00:00.900Z'') (Some ''slow'') (Some ''ssh'') None))
        (Some ''64f000000000000000000001'') (Some ''Bea'') (Some 4) (Some ''fine'')
        (Some ''1970-01-01T00:00:00.900Z'') (Some ''crash'') (Some ''gdb'')
        (Some ''1970-01-01T00:00:00.500Z''))) =
   (200, JObj [(''success'', JBool True),
      (''reviews'', JArr
         [JObj [(''userId'', JOid 1), (''userName'', JStr ''Ana''), (''problemDate'', JDate 900),
                (''problemDescription'', JStr ''slow''), (''toolsUsed'', JStr ''ssh''),
                (''rating'', JNum 5), (''comment'', JStr ''ok''), (''_id'', JOid 1),
                (''date'', JDate 1000), (''__v'', JNum 0)],
          JObj [(''userId'', JOid 1), (''userName'', JStr ''Bea''), (''problemDate'', JDate 900),
                (''problemDescription'', JStr ''crash''), (''toolsUsed'', JStr ''gdb''),
                (''rating'', JNum 4), (''comment'', JStr ''fine''), (''_id'', JOid 2),
                (''date'', JDate 500), (''__v'', JNum 0)]])])"
  by (simp add: listReviews_def find_sort_date_desc_def review_json_def createReview2_def
      save_review_def js_not_def example_casts_def empty_db_def new_ObjectId_def
      Let_def)

text \<open>
  A rating outside 1 to 5 that is not 0 passes the presence check of variant 1 and is
  rejected by the schema, inside \<open>save\<close>: the answer is the 500 of the catch block.
\<close>

lemma createReview1_rating_out_of_range:
  assumes "\<not> js_not userId" "\<not> js_not userName" "\<not> js_not comment" "\<not> js_not problemDate"
    "\<not> js_not problemDescription" "\<not> js_not toolsUsed" and "r < 0 \<or> 5 < r"
  shows "createReview1 C now d userId userName (Some r) comment problemDate problemDescription
           toolsUsed =
         (d, (500, JObj [(''success'', JBool False), (''message'', JStr msg_error_crear_resena),
                         (''error'', JErrorMessage ValidationError)]))"
  using assms
  by (auto simp: createReview1_def save_review_def js_not_def js_not_num_def
      split: option.splits)

text \<open>
  C10. A createReview call of variant 1 with the rating 0 fails with 400 and the message
  "Faltan campos requeridos", whatever the other fields are, and writes nothing: the
  presence check takes 0 for an absent field, and the range of the schema is never
  reached.
\<close>

theorem createReview1_rating_zero:
  "createReview1 C now d userId userName (Some 0) comment problemDate problemDescription
     toolsUsed = (d, reply 400 False msg_faltan_campos)"
  by (simp add: createReview1_def js_not_num_def)

subsection \<open>A failed registration writes nothing\<close>

text \<open>
  C9. A register call of variant 1 that fails, because name, email or password is
  missing or because an account with the identity exists, answers 400 and leaves the
  store as it was.
\<close>

theorem register1_failure_store_unchanged:
  assumes "js_not name \<or> js_not email \<or> js_not password \<or> findOne_email d email \<noteq> None"
  shows "register1 H salt d name email password =
           (d, reply 400 False (if js_not name \<or> js_not email \<or> js_not password
                                then msg_campos_registro else msg_usuario_existe))"
  using assms by (rule register1_failure)

theorem register1_failure_store_unchanged_witness:
  "js_not (Some '''') \<and>
   register1 example_hash ''s'' ana_db (Some '''') (Some ''b@x.com'') (Some ''pw'') =
     (ana_db, reply 400 False msg_campos_registro) \<and>
   findOne_email ana_db (Some ''a@x.com'') \<noteq> None \<and>
   register1 example_hash ''s'' ana_db (Some ''Bea'') (Some ''a@x.com'') (Some ''pw'') =
     (ana_db, reply 400 False msg_usuario_existe)"
proof -
  have missing: "js_not (Some '''')" by (simp add: js_not_def)
  have dup: "findOne_email ana_db (Some ''a@x.com'') \<noteq> None"
    by (simp add: findOne_email_def ana_db_def ana_def)
  have present: "\<not> js_not (Some ''Bea'')" "\<not> js_not (Some ''a@x.com'')" "\<not> js_not (Some ''pw'')"
    by (simp_all add: js_not_def)
  from register1_failure_store_unchanged
         [of "Some ''''" "Some ''b@x.com''" "Some ''pw''" ana_db example_hash "''s''"]
       register1_failure_store_unchanged
         [of "Some ''Bea''" "Some ''a@x.com''" "Some ''pw''" ana_db example_hash "''s''"]
       missing dup present
  show ?thesis by simp
qed

text \<open>Every other outcome of register in variant 1 is the success.\<close>

lemma register1_outcomes:
  "register1 H salt d name email password = (d, reply 400 False msg_campos_registro) \<or>
   register1 H salt d name email password = (d, reply 400 False msg_usuario_existe) \<or>
   snd (register1 H salt d name email password) = reply 201 True msg_usuario_registrado"
proof (cases "js_not name \<or> js_not email \<or> js_not password \<or> findOne_email d email \<noteq> None")
  case True
  from register1_failure[OF this, of H salt] show ?thesis by (simp split: if_splits)
next
  case False
  then have "\<not> js_not name" "\<not> js_not email" "\<not> js_not password"
    "findOne_email d email = None" by auto
  from register1_success[OF this, of H salt] show ?thesis by simp
qed

lemma register1_store_changes_only_on_success:
  assumes "fst (register1 H salt d name email password) \<noteq> d"
  shows "snd (register1 H salt d name email password) = reply 201 True msg_usuario_registrado"
  using assms register1_outcomes[of H salt d name email password] by auto

end
